theory Spec2Isabelle
  imports Complex_Main
begin

section \<open>Monthly commission calculation (routers/sales.py)\<close>

text \<open>
  A shallow embedding of \<^verbatim>\<open>calculate_monthly_commission\<close> of \<^verbatim>\<open>routers/sales.py\<close> and of
  the rows of \<^verbatim>\<open>models.py\<close> it reads and writes.

  Conventions of the embedding.
  \<^item> A \<^verbatim>\<open>Numeric\<close> column is read as a Python \<^verbatim>\<open>Decimal\<close>. The product of an amount
    (\<^verbatim>\<open>Numeric(12, 2)\<close>) and a rate (\<^verbatim>\<open>Numeric(5, 2)\<close>), its division by 100 and the sums of
    the handler stay below the 28 digits of the default context, where \<^verbatim>\<open>Decimal\<close> does not
    round. A \<^verbatim>\<open>Decimal\<close> is therefore a rational number here, with the arithmetic of \<open>rat\<close>.
  \<^item> A column that the request schemas always fill (amounts, rates, types, status, the
    active flag) is not null in the model; a nullable one is an \<open>option\<close>.
  \<^item> A table is the list of its rows in the order in which an unordered query lists them;
    \<^verbatim>\<open>.first()\<close> is the first row of that list that passes the filter.
  \<^item> The handler commits once, at its end, and every \<^verbatim>\<open>raise\<close> of it comes before its first
    assignment to a loaded object. An exception therefore leaves the stored tables as they
    were, and the handler returns its outcome together with the stored tables after the
    request.
  \<^item> The storage engine is a collaborator: the model stores every value the handler assigns,
    as it is, and does not re-scale it to the precision of a column.
  \<^item> The clock is read once for a request; the integers of a request are within the range
    of the integer columns they are compared with.
\<close>

subsection \<open>Enumerations and rows (models.py)\<close>

datatype SaleType = store_opening | renovation | maintenance_contract | consulting
  | car_rental | other

datatype SaleStatus = lead | proposal_sent | negotiating | closed_won | closed_lost | cancelled

datatype CommissionStatus = pending | calculated | paid | disputed

type_synonym decimal = rat

text \<open>A calendar date \<open>(year, month, day)\<close>; a timestamp is a number of ticks.\<close>

type_synonym date = "int \<times> int \<times> int"

type_synonym datetime = nat

record User =
  user_id :: int
  role :: string

record Sale =
  sale_id :: int
  sale_type :: SaleType
  status :: SaleStatus
  sale_amount :: decimal
  salesperson_id :: int
  close_date :: "date option"
  commission_amount :: "decimal option"
  commission_status :: CommissionStatus

record EmployeeCommissionRule =
  rule_id :: int
  rule_employee_id :: int
  rule_sale_type :: "SaleType option"
  base_commission_rate :: decimal
  min_sale_amount :: decimal
  tier1_threshold :: "decimal option"
  tier1_bonus_rate :: decimal
  tier2_threshold :: "decimal option"
  tier2_bonus_rate :: decimal
  tier3_threshold :: "decimal option"
  tier3_bonus_rate :: decimal
  is_active :: bool
  effective_from :: date
  effective_until :: "date option"

text \<open>
  Python's \<^verbatim>\<open>float\<close>: a finite IEEE 754 binary64 number, held as the rational number it
  denotes. \<^verbatim>\<open>sales_breakdown\<close> is the dictionary the handler builds, in insertion order,
  before \<^verbatim>\<open>json.dumps\<close> writes it out.
\<close>

type_synonym pyfloat = rat

record breakdown_entry =
  bd_count :: int
  bd_total_amount :: pyfloat
  bd_commission :: pyfloat

record MonthlyCommissionSummary =
  summary_id :: int
  employee_id :: int
  year :: int
  month :: int
  total_sales_amount :: decimal
  closed_deals_count :: nat
  active_leads_count :: nat
  base_commission :: decimal
  tier_bonus :: decimal
  total_commission :: decimal
  payment_status :: CommissionStatus
  payment_date :: "date option"
  payment_notes :: "string option"
  sales_breakdown :: "(SaleType \<times> breakdown_entry) list"
  calculated_at :: datetime
  last_updated :: datetime
  calculated_by_id :: int

record CommissionCalculationRequest =
  req_employee_id :: int
  req_year :: int
  req_month :: int
  recalculate :: bool

record database =
  users :: "User list"
  commission_rules :: "EmployeeCommissionRule list"
  sales :: "Sale list"
  summaries :: "MonthlyCommissionSummary list"

datatype error = HTTPException nat string | ValueError | OverflowError

subsection \<open>datetime.date\<close>

definition is_leap :: "int \<Rightarrow> bool" where
  "is_leap y \<longleftrightarrow> y mod 4 = 0 \<and> (y mod 100 \<noteq> 0 \<or> y mod 400 = 0)"

definition days_in_month :: "int \<Rightarrow> int \<Rightarrow> int" where
  "days_in_month y m =
     (if m = 2 then (if is_leap y then 29 else 28)
      else if m = 4 \<or> m = 6 \<or> m = 9 \<or> m = 11 then 30 else 31)"

text \<open>\<^verbatim>\<open>date(year, month, day)\<close> raises \<^verbatim>\<open>ValueError\<close> outside the calendar.\<close>

definition py_date :: "int \<Rightarrow> int \<Rightarrow> int \<Rightarrow> error + date" where
  "py_date y m d =
     (if \<not> (1 \<le> y \<and> y \<le> 9999) then Inl ValueError
      else if \<not> (1 \<le> m \<and> m \<le> 12) then Inl ValueError
      else if \<not> (1 \<le> d \<and> d \<le> days_in_month y m) then Inl ValueError
      else Inr (y, m, d))"

text \<open>\<^verbatim>\<open>d - relativedelta(days=1)\<close>: the day before \<open>d\<close>.\<close>

fun minus_one_day :: "date \<Rightarrow> error + date" where
  "minus_one_day (y, m, d) =
     (if 1 < d then Inr (y, m, d - 1)
      else if 1 < m then Inr (y, m - 1, days_in_month y (m - 1))
      else if 1 < y then Inr (y - 1, 12, 31)
      else Inl OverflowError)"

fun date_le :: "date \<Rightarrow> date \<Rightarrow> bool" where
  "date_le (y1, m1, d1) (y2, m2, d2) \<longleftrightarrow>
     y1 < y2 \<or> (y1 = y2 \<and> (m1 < m2 \<or> (m1 = m2 \<and> d1 \<le> d2)))"

text \<open>
  Lines 167-172: the first and the last day of the month.
\<close>

definition month_range :: "int \<Rightarrow> int \<Rightarrow> error + (date \<times> date)" where
  "month_range y m =
     (case py_date y m 1 of
        Inl e \<Rightarrow> Inl e
      | Inr start_date \<Rightarrow>
          (case (if m = 12 then py_date (y + 1) 1 1 else py_date y (m + 1) 1) of
             Inl e \<Rightarrow> Inl e
           | Inr next_first \<Rightarrow>
               (case minus_one_day next_first of
                  Inl e \<Rightarrow> Inl e
                | Inr end_date \<Rightarrow> Inr (start_date, end_date))))"

subsection \<open>float\<close>

text \<open>
  \<^verbatim>\<open>float(x)\<close> of a \<^verbatim>\<open>Decimal\<close> and the sum of two floats are rounded to the nearest
  binary64 number, ties to the even significand. \<open>bit_length\<close> is \<^verbatim>\<open>int.bit_length\<close>.
  The numbers of the handler stay far inside the finite range of binary64, so infinities are
  not represented.
\<close>

function bit_length :: "int \<Rightarrow> int" where
  "bit_length n = (if n \<le> 0 then 0 else 1 + bit_length (n div 2))"
  by pat_completeness auto
termination
  by (relation "measure nat") auto

definition pow2 :: "int \<Rightarrow> rat" where
  "pow2 e = (if 0 \<le> e then 2 ^ nat e else 1 / 2 ^ nat (- e))"

definition floor_log2 :: "rat \<Rightarrow> int" where
  "floor_log2 a =
     (let (p, q) = quotient_of a; k = bit_length p - bit_length q
      in if pow2 k \<le> a then k else k - 1)"

definition round_half_even :: "rat \<Rightarrow> int" where
  "round_half_even x =
     (let f = \<lfloor>x\<rfloor>; d = x - of_int f
      in if d < 1 / 2 then f else if 1 / 2 < d then f + 1
         else if even f then f else f + 1)"

definition round_to_double :: "rat \<Rightarrow> pyfloat" where
  "round_to_double x =
     (if x = 0 then 0
      else let a = \<bar>x\<bar>; e = max (floor_log2 a - 52) (- 1074)
           in sgn x * of_int (round_half_even (a / pow2 e)) * pow2 e)"

definition float_of_decimal :: "decimal \<Rightarrow> pyfloat" where
  "float_of_decimal x = round_to_double x"

definition float_add :: "pyfloat \<Rightarrow> pyfloat \<Rightarrow> pyfloat" where
  "float_add a b = round_to_double (a + b)"

subsection \<open>routers/utils.py\<close>

definition check_roles :: "User \<Rightarrow> string list \<Rightarrow> error + unit" where
  "check_roles current_user allowed_roles =
     (if role current_user \<in> set allowed_roles then Inr ()
      else Inl (HTTPException 403
             ''Not authorized to perform this action. Insufficient role.''))"

subsection \<open>The blocks of calculate_monthly_commission\<close>

text \<open>
  Lines 202-207: the inner loop over \<^verbatim>\<open>commission_rules\<close>, which stops at the first rule that
  passes both tests.
\<close>

fun find_applicable_rule :: "EmployeeCommissionRule list \<Rightarrow> Sale \<Rightarrow> EmployeeCommissionRule option"
  where
  "find_applicable_rule [] sale = None"
| "find_applicable_rule (rule # rest) sale =
     (if rule_sale_type rule = None \<or> rule_sale_type rule = Some (sale_type sale)
      then (if min_sale_amount rule \<le> sale_amount sale then Some rule
            else find_applicable_rule rest sale)
      else find_applicable_rule rest sale)"

text \<open>
  Lines 217-227: the dictionary \<^verbatim>\<open>sales_breakdown\<close>. A key that is not there yet is entered
  with three zeros; the entry's counters are then increased, the amounts as floats.
\<close>

fun dict_set :: "('k \<times> 'v) list \<Rightarrow> 'k \<Rightarrow> 'v \<Rightarrow> ('k \<times> 'v) list" where
  "dict_set [] k v = [(k, v)]"
| "dict_set ((k', v') # kvs) k v =
     (if k' = k then (k, v) # kvs else (k', v') # dict_set kvs k v)"

definition track_breakdown ::
  "(SaleType \<times> breakdown_entry) list \<Rightarrow> Sale \<Rightarrow> decimal \<Rightarrow> (SaleType \<times> breakdown_entry) list"
  where
  "track_breakdown breakdown sale commission =
     (let sale_type_key = sale_type sale;
          entry = (case map_of breakdown sale_type_key of
                     None \<Rightarrow> \<lparr>bd_count = 0, bd_total_amount = 0, bd_commission = 0\<rparr>
                   | Some e \<Rightarrow> e)
      in dict_set breakdown sale_type_key
           \<lparr>bd_count = bd_count entry + 1,
            bd_total_amount =
              float_add (bd_total_amount entry) (float_of_decimal (sale_amount sale)),
            bd_commission = float_add (bd_commission entry) (float_of_decimal commission)\<rparr>)"

text \<open>
  Lines 200-227: the loop over \<^verbatim>\<open>closed_sales\<close>. It carries \<^verbatim>\<open>base_commission\<close> and
  \<^verbatim>\<open>sales_breakdown\<close> and returns them with the sale objects as the loop leaves them.
\<close>

fun sales_loop ::
  "EmployeeCommissionRule list \<Rightarrow> Sale list \<Rightarrow> decimal \<Rightarrow> (SaleType \<times> breakdown_entry) list
     \<Rightarrow> decimal \<times> (SaleType \<times> breakdown_entry) list \<times> Sale list"
  where
  "sales_loop rules [] base breakdown = (base, breakdown, [])"
| "sales_loop rules (sale # rest) base breakdown =
     (case find_applicable_rule rules sale of
        None \<Rightarrow>
          (let (base', breakdown', rest') = sales_loop rules rest base breakdown
           in (base', breakdown', sale # rest'))
      | Some applicable_rule \<Rightarrow>
          (let commission = (sale_amount sale * base_commission_rate applicable_rule) / 100;
               sale' = sale\<lparr>commission_amount := Some commission,
                            commission_status := calculated\<rparr>;
               (base', breakdown', rest') =
                  sales_loop rules rest (base + commission)
                    (track_breakdown breakdown sale commission)
           in (base', breakdown', sale' # rest')))"

text \<open>
  Lines 229-237: the tier bonuses. \<^verbatim>\<open>rule.tier1_threshold and ...\<close> is Python's truth test:
  \<^verbatim>\<open>None\<close> and a zero \<^verbatim>\<open>Decimal\<close> are both false.
\<close>

definition tier_reached :: "decimal option \<Rightarrow> decimal \<Rightarrow> bool" where
  "tier_reached threshold total_sales =
     (case threshold of None \<Rightarrow> False | Some t \<Rightarrow> t \<noteq> 0 \<and> t \<le> total_sales)"

fun tier_loop :: "EmployeeCommissionRule list \<Rightarrow> decimal \<Rightarrow> decimal \<Rightarrow> decimal" where
  "tier_loop [] total_sales bonus = bonus"
| "tier_loop (rule # rest) total_sales bonus =
     (let b1 = (if tier_reached (tier1_threshold rule) total_sales
                then bonus + (total_sales * tier1_bonus_rate rule) / 100 else bonus);
          b2 = (if tier_reached (tier2_threshold rule) total_sales
                then b1 + (total_sales * tier2_bonus_rate rule) / 100 else b1);
          b3 = (if tier_reached (tier3_threshold rule) total_sales
                then b2 + (total_sales * tier3_bonus_rate rule) / 100 else b2)
      in tier_loop rest total_sales b3)"

text \<open>
  \<^verbatim>\<open>db.commit()\<close> writes every loaded object back to the row with its primary key; a new
  summary is appended under a key the table does not use yet.
\<close>

definition flush_sale :: "Sale \<Rightarrow> Sale list \<Rightarrow> Sale list" where
  "flush_sale obj table = map (\<lambda>row. if sale_id row = sale_id obj then obj else row) table"

definition flush_summary ::
  "MonthlyCommissionSummary \<Rightarrow> MonthlyCommissionSummary list \<Rightarrow> MonthlyCommissionSummary list"
  where
  "flush_summary obj table =
     map (\<lambda>row. if summary_id row = summary_id obj then obj else row) table"

definition next_summary_id :: "MonthlyCommissionSummary list \<Rightarrow> int" where
  "next_summary_id table = fold max (map summary_id table) 0 + 1"

text \<open>Lines 174-180 and 182-190: the two queries on the sales table.\<close>

definition in_range :: "date option \<Rightarrow> date \<Rightarrow> date \<Rightarrow> bool" where
  "in_range d start_date end_date =
     (case d of None \<Rightarrow> False | Some c \<Rightarrow> date_le start_date c \<and> date_le c end_date)"

definition closed_sales_query :: "int \<Rightarrow> date \<Rightarrow> date \<Rightarrow> Sale list \<Rightarrow> Sale list" where
  "closed_sales_query employee start_date end_date table =
     filter (\<lambda>s. salesperson_id s = employee \<and> status s = closed_won
                 \<and> in_range (close_date s) start_date end_date) table"

definition active_leads_query :: "int \<Rightarrow> Sale list \<Rightarrow> nat" where
  "active_leads_query employee table =
     length (filter (\<lambda>s. salesperson_id s = employee
                 \<and> (status s = lead \<or> status s = proposal_sent \<or> status s = negotiating)) table)"

definition active_rules_query :: "int \<Rightarrow> EmployeeCommissionRule list \<Rightarrow> EmployeeCommissionRule list"
  where
  "active_rules_query employee table =
     filter (\<lambda>r. rule_employee_id r = employee \<and> is_active r) table"

definition summary_query ::
  "int \<Rightarrow> int \<Rightarrow> int \<Rightarrow> MonthlyCommissionSummary list \<Rightarrow> MonthlyCommissionSummary option"
  where
  "summary_query employee y m table =
     find (\<lambda>s. employee_id s = employee \<and> year s = y \<and> month s = m) table"

subsection \<open>The handler\<close>

text \<open>
  Lines 192-272, from the totals to the commit. \<open>existing_summary\<close> is the row found at
  line 144, if any.
\<close>

definition compute_and_store ::
  "CommissionCalculationRequest \<Rightarrow> User \<Rightarrow> datetime \<Rightarrow> database
     \<Rightarrow> MonthlyCommissionSummary option \<Rightarrow> EmployeeCommissionRule list \<Rightarrow> Sale list \<Rightarrow> nat
     \<Rightarrow> MonthlyCommissionSummary \<times> database"
  where
  "compute_and_store calculation_request current_user utcnow db existing_summary rules
       closed_sales active_leads =
     (let total_sales = sum_list (map sale_amount closed_sales);
          deals = length closed_sales;
          (base, breakdown, closed_sales') = sales_loop rules closed_sales 0 [];
          bonus = tier_loop rules total_sales 0;
          summary =
            (case existing_summary of
               Some s \<Rightarrow> s
             | None \<Rightarrow>
                 \<lparr>summary_id = next_summary_id (summaries db),
                  employee_id = req_employee_id calculation_request,
                  year = req_year calculation_request,
                  month = req_month calculation_request,
                  total_sales_amount = 0, closed_deals_count = 0, active_leads_count = 0,
                  base_commission = 0, tier_bonus = 0, total_commission = 0,
                  payment_status = pending, payment_date = None, payment_notes = None,
                  sales_breakdown = [], calculated_at = utcnow, last_updated = utcnow,
                  calculated_by_id = user_id current_user\<rparr>);
          summary' = summary\<lparr>total_sales_amount := total_sales,
                             closed_deals_count := deals,
                             active_leads_count := active_leads,
                             base_commission := base,
                             tier_bonus := bonus,
                             total_commission := base + bonus,
                             sales_breakdown := breakdown,
                             last_updated := utcnow\<rparr>
      in (summary',
          db\<lparr>sales := fold flush_sale closed_sales' (sales db),
             summaries :=
               (case existing_summary of
                  Some _ \<Rightarrow> flush_summary summary' (summaries db)
                | None \<Rightarrow> summaries db @ [summary'])\<rparr>))"

text \<open>
  The handler, lines 126-272. The second query of lines 152-155 and of lines 267-270 loads
  the relationships of the object it already holds and returns that object.
\<close>

definition calculate_monthly_commission ::
  "CommissionCalculationRequest \<Rightarrow> User \<Rightarrow> datetime \<Rightarrow> database
     \<Rightarrow> (error + MonthlyCommissionSummary) \<times> database"
  where
  "calculate_monthly_commission calculation_request current_user utcnow db =
     (case check_roles current_user [''admin'', ''Manager'', ''Head''] of
        Inl e \<Rightarrow> (Inl e, db)
      | Inr _ \<Rightarrow>
          (let employee_id' = req_employee_id calculation_request;
               year' = req_year calculation_request;
               month' = req_month calculation_request
           in case find (\<lambda>u. user_id u = employee_id') (users db) of
                None \<Rightarrow> (Inl (HTTPException 404 ''Employee not found''), db)
              | Some employee \<Rightarrow>
                  (let existing_summary = summary_query employee_id' year' month' (summaries db)
                   in case (existing_summary, recalculate calculation_request) of
                        (Some s, False) \<Rightarrow> (Inr s, db)
                      | _ \<Rightarrow>
                          (let rules = active_rules_query employee_id' (commission_rules db)
                           in if rules = []
                              then (Inl (HTTPException 400
                                      ''No commission rules found for this employee''), db)
                              else
                                (case month_range year' month' of
                                   Inl e \<Rightarrow> (Inl e, db)
                                 | Inr (start_date, end_date) \<Rightarrow>
                                     (let closed_sales =
                                            closed_sales_query employee_id' start_date end_date
                                              (sales db);
                                          active_leads =
                                            active_leads_query employee_id' (sales db);
                                          (summary, db') =
                                            compute_and_store calculation_request current_user
                                              utcnow db existing_summary rules closed_sales
                                              active_leads
                                      in (Inr summary, db')))))))"

subsection \<open>The specification's reading of the per-sale step\<close>

text \<open>
  The words of the specification, to be compared with the loops above: a rule matches a sale
  when its sale type is null or the sale's and its minimum is at most the sale's amount; the
  rule of a sale is the first matching one in the listed order; the sale's commission is
  its amount times that rule's base rate over 100, and nothing when no rule matches; a sale
  with a rule gets that commission and the status \<open>calculated\<close>, a sale without one is
  left as it is.
\<close>

definition claimed_rule_matches :: "Sale \<Rightarrow> EmployeeCommissionRule \<Rightarrow> bool" where
  "claimed_rule_matches sale rule \<longleftrightarrow>
     (rule_sale_type rule = None \<or> rule_sale_type rule = Some (sale_type sale))
       \<and> min_sale_amount rule \<le> sale_amount sale"

definition claimed_commission :: "EmployeeCommissionRule list \<Rightarrow> Sale \<Rightarrow> decimal" where
  "claimed_commission rules sale =
     (case find (claimed_rule_matches sale) rules of
        None \<Rightarrow> 0
      | Some rule \<Rightarrow> sale_amount sale * base_commission_rate rule / 100)"

definition claimed_sale_after :: "EmployeeCommissionRule list \<Rightarrow> Sale \<Rightarrow> Sale" where
  "claimed_sale_after rules sale =
     (case find (claimed_rule_matches sale) rules of
        None \<Rightarrow> sale
      | Some rule \<Rightarrow>
          sale\<lparr>commission_amount := Some (sale_amount sale * base_commission_rate rule / 100),
               commission_status := calculated\<rparr>)"

subsection \<open>The tier bonuses as sums\<close>

text \<open>What one rule adds to \<^verbatim>\<open>tier_bonus\<close> in one pass of the loop of lines 231-237.\<close>

definition rule_tier_bonus :: "decimal \<Rightarrow> EmployeeCommissionRule \<Rightarrow> decimal" where
  "rule_tier_bonus t rule =
     (if tier_reached (tier1_threshold rule) t then t * tier1_bonus_rate rule / 100 else 0)
   + (if tier_reached (tier2_threshold rule) t then t * tier2_bonus_rate rule / 100 else 0)
   + (if tier_reached (tier3_threshold rule) t then t * tier3_bonus_rate rule / 100 else 0)"



subsection \<open>The breakdown as sums of floats\<close>



subsection \<open>Rules that differ in what the handler does not read\<close>

text \<open>A rule with every zero threshold replaced by an absent one.\<close>

definition without_zero_tiers :: "EmployeeCommissionRule \<Rightarrow> EmployeeCommissionRule" where
  "without_zero_tiers rule =
     rule\<lparr>tier1_threshold := (if tier1_threshold rule = Some 0 then None else tier1_threshold rule),
          tier2_threshold := (if tier2_threshold rule = Some 0 then None else tier2_threshold rule),
          tier3_threshold := (if tier3_threshold rule = Some 0 then None else tier3_threshold rule)\<rparr>"

text \<open>A rule with another effective window.\<close>

definition with_window :: "date \<Rightarrow> date option \<Rightarrow> EmployeeCommissionRule \<Rightarrow> EmployeeCommissionRule"
  where
  "with_window new_from new_until rule =
     rule\<lparr>effective_from := new_from, effective_until := new_until\<rparr>"

subsection \<open>The summary table and sequences of calls\<close>

text \<open>
  The period a summary stands for, the two uniqueness constraints of the table (its
  primary key and one row for each period), and a sequence of calls, each on the tables the
  previous one left.
\<close>

definition summary_key :: "MonthlyCommissionSummary \<Rightarrow> int \<times> int \<times> int" where
  "summary_key s = (employee_id s, year s, month s)"

definition summary_table_ok :: "database \<Rightarrow> bool" where
  "summary_table_ok db \<longleftrightarrow>
     distinct (map summary_id (summaries db)) \<and> distinct (map summary_key (summaries db))"

definition run_requests ::
  "(CommissionCalculationRequest \<times> User \<times> datetime) list \<Rightarrow> database \<Rightarrow> database" where
  "run_requests calls db =
     fold (\<lambda>(req, u, now) d. snd (calculate_monthly_commission req u now d)) calls db"

subsection \<open>Sample data\<close>

text \<open>
  Employee 7 has one active rule (base rate 10, minimum 500, tiers 10000/20000/30000 at
  2/3/5 per cent, effective during 2020 only) and two sales closed in June 2025, of 24900
  and of 100. \<open>ex_summary\<close> and \<open>ex_db_after\<close> are the summary and the tables after the
  first calculation for June 2025, requested by an administrator at time 5.
\<close>

definition ex_rule :: EmployeeCommissionRule where
  "ex_rule = \<lparr>rule_id = 1, rule_employee_id = 7, rule_sale_type = None,
     base_commission_rate = 10, min_sale_amount = 500,
     tier1_threshold = Some 10000, tier1_bonus_rate = 2,
     tier2_threshold = Some 20000, tier2_bonus_rate = 3,
     tier3_threshold = Some 30000, tier3_bonus_rate = 5,
     is_active = True, effective_from = (2020, 1, 1), effective_until = Some (2020, 12, 31)\<rparr>"

definition ex_sale_large :: Sale where
  "ex_sale_large = \<lparr>sale_id = 1, sale_type = consulting, status = closed_won,
     sale_amount = 24900, salesperson_id = 7, close_date = Some (2025, 6, 30),
     commission_amount = None, commission_status = pending\<rparr>"

definition ex_sale_small :: Sale where
  "ex_sale_small = \<lparr>sale_id = 2, sale_type = renovation, status = closed_won,
     sale_amount = 100, salesperson_id = 7, close_date = Some (2025, 6, 1),
     commission_amount = None, commission_status = pending\<rparr>"

definition ex_admin :: User where
  "ex_admin = \<lparr>user_id = 1, role = ''admin''\<rparr>"

definition ex_db :: database where
  "ex_db = \<lparr>users = [ex_admin, \<lparr>user_id = 7, role = ''Agent''\<rparr>],
     commission_rules = [ex_rule], sales = [ex_sale_large, ex_sale_small], summaries = []\<rparr>"

definition ex_request :: CommissionCalculationRequest where
  "ex_request = \<lparr>req_employee_id = 7, req_year = 2025, req_month = 6, recalculate = False\<rparr>"

definition ex_summary :: MonthlyCommissionSummary where
  "ex_summary = \<lparr>summary_id = 1, employee_id = 7, year = 2025, month = 6,
     total_sales_amount = 25000, closed_deals_count = 2, active_leads_count = 0,
     base_commission = 2490, tier_bonus = 1250, total_commission = 3740,
     payment_status = pending, payment_date = None, payment_notes = None,
     sales_breakdown =
       [(consulting, \<lparr>bd_count = 1, bd_total_amount = 24900, bd_commission = 2490\<rparr>)],
     calculated_at = 5, last_updated = 5, calculated_by_id = 1\<rparr>"

definition ex_db_after :: database where
  "ex_db_after = ex_db\<lparr>
     sales := [ex_sale_large\<lparr>commission_amount := Some 2490, commission_status := calculated\<rparr>,
               ex_sale_small],
     summaries := [ex_summary]\<rparr>"

text \<open>Two calls for employee 7 and June 2025, the second one forcing a recalculation.\<close>

definition ex_calls :: "(CommissionCalculationRequest \<times> User \<times> datetime) list" where
  "ex_calls = [(ex_request, ex_admin, 5), (ex_request\<lparr>recalculate := True\<rparr>, ex_admin, 6)]"

text \<open>The sample rule with a first tier at threshold 0.\<close>

definition zt_rule :: EmployeeCommissionRule where
  "zt_rule = ex_rule\<lparr>tier1_threshold := Some 0\<rparr>"

definition zt_db :: database where
  "zt_db = ex_db\<lparr>commission_rules := [zt_rule]\<rparr>"

text \<open>The sample month without an active rule for employee 7.\<close>

definition norule_db :: database where
  "norule_db = ex_db\<lparr>commission_rules :=
     [ex_rule\<lparr>is_active := False\<rparr>, ex_rule\<lparr>rule_id := 2, rule_employee_id := 8\<rparr>]\<rparr>"


section \<open>Properties\<close>

subsection \<open>The loops in closed form\<close>




lemma sale_id_after [simp]: "sale_id (claimed_sale_after rules s) = sale_id s"
  by (simp add: claimed_sale_after_def split: option.splits)

subsection \<open>The commit of the sales\<close>





subsection \<open>The summary and the tables of a call that computes\<close>

lemma tier_loop_sum:
  "tier_loop rules t b = b + sum_list (map (rule_tier_bonus t) rules)"
  by (induction rules arbitrary: b) (simp_all add: Let_def rule_tier_bonus_def)




lemma calculate_recompute:
  assumes "check_roles u [''admin'', ''Manager'', ''Head''] = Inr ()"
    and "find (\<lambda>x. user_id x = req_employee_id req) (users db) = Some employee"
    and "summary_query (req_employee_id req) (req_year req) (req_month req) (summaries db) = None
         \<or> recalculate req"
  shows "calculate_monthly_commission req u now db =
     (if active_rules_query (req_employee_id req) (commission_rules db) = []
      then (Inl (HTTPException 400 ''No commission rules found for this employee''), db)
      else case month_range (req_year req) (req_month req) of
             Inl e \<Rightarrow> (Inl e, db)
           | Inr (start_date, end_date) \<Rightarrow>
               (Inr (fst (compute_and_store req u now db
                       (summary_query (req_employee_id req) (req_year req) (req_month req)
                          (summaries db))
                       (active_rules_query (req_employee_id req) (commission_rules db))
                       (closed_sales_query (req_employee_id req) start_date end_date (sales db))
                       (active_leads_query (req_employee_id req) (sales db)))),
                snd (compute_and_store req u now db
                       (summary_query (req_employee_id req) (req_year req) (req_month req)
                          (summaries db))
                       (active_rules_query (req_employee_id req) (commission_rules db))
                       (closed_sales_query (req_employee_id req) start_date end_date (sales db))
                       (active_leads_query (req_employee_id req) (sales db)))))"
  using assms
  by (auto simp: calculate_monthly_commission_def Let_def split_beta
           split: option.splits bool.splits sum.splits)

lemma calculate_Inr_recompute:
  assumes "calculate_monthly_commission req u now db = (Inr sm, db')"
    and "summary_query (req_employee_id req) (req_year req) (req_month req) (summaries db) = None
         \<or> recalculate req"
  shows "\<exists>start_date end_date.
           month_range (req_year req) (req_month req) = Inr (start_date, end_date)
         \<and> active_rules_query (req_employee_id req) (commission_rules db) \<noteq> []
         \<and> compute_and_store req u now db
              (summary_query (req_employee_id req) (req_year req) (req_month req)
                 (summaries db))
              (active_rules_query (req_employee_id req) (commission_rules db))
              (closed_sales_query (req_employee_id req) start_date end_date (sales db))
              (active_leads_query (req_employee_id req) (sales db)) = (sm, db')"
  using assms
  by (auto simp: calculate_monthly_commission_def Let_def split_beta
           split: option.splits bool.splits sum.splits if_splits)


subsection \<open>The sample month, evaluated\<close>

lemma ex_run:
  "calculate_monthly_commission ex_request ex_admin 5 ex_db = (Inr ex_summary, ex_db_after)"
  by code_simp





subsection \<open>The tier bonuses\<close>






subsection \<open>The early return and the missing rules\<close>

text \<open>
  Claim C3. When a summary is stored for the period and \<^verbatim>\<open>recalculate\<close> is false, the call
  of an authorised user for an employee that exists returns the stored summary and leaves
  every table as it was; a second such call, at any later time, returns the same summary
  and the same tables.
\<close>

theorem existing_summary_returned_unchanged:
  assumes "check_roles u [''admin'', ''Manager'', ''Head''] = Inr ()"
    and "find (\<lambda>x. user_id x = req_employee_id req) (users db) = Some employee"
    and "summary_query (req_employee_id req) (req_year req) (req_month req) (summaries db) = Some s"
    and "\<not> recalculate req"
  shows "calculate_monthly_commission req u now db = (Inr s, db)
       \<and> calculate_monthly_commission req u later
           (snd (calculate_monthly_commission req u now db)) = (Inr s, db)"
proof -
  have "calculate_monthly_commission req u t db = (Inr s, db)" for t
    using assms by (simp add: calculate_monthly_commission_def Let_def)
  then show ?thesis by simp
qed

lemma ex_auth: "check_roles ex_admin [''admin'', ''Manager'', ''Head''] = Inr ()"
  by code_simp

theorem existing_summary_returned_unchanged_witness:
  "check_roles ex_admin [''admin'', ''Manager'', ''Head''] = Inr ()
   \<and> find (\<lambda>x. user_id x = req_employee_id ex_request) (users ex_db_after)
       = Some \<lparr>user_id = 7, role = ''Agent''\<rparr>
   \<and> summary_query (req_employee_id ex_request) (req_year ex_request) (req_month ex_request)
       (summaries ex_db_after) = Some ex_summary
   \<and> \<not> recalculate ex_request
   \<and> calculate_monthly_commission ex_request ex_admin 6 ex_db_after = (Inr ex_summary, ex_db_after)
   \<and> calculate_monthly_commission ex_request ex_admin 7
       (snd (calculate_monthly_commission ex_request ex_admin 6 ex_db_after))
       = (Inr ex_summary, ex_db_after)"
proof -
  have h2: "find (\<lambda>x. user_id x = req_employee_id ex_request) (users ex_db_after)
       = Some \<lparr>user_id = 7, role = ''Agent''\<rparr>"
    by code_simp
  have h3: "summary_query (req_employee_id ex_request) (req_year ex_request)
       (req_month ex_request) (summaries ex_db_after) = Some ex_summary"
    by code_simp
  have h4: "\<not> recalculate ex_request"
    by code_simp
  show ?thesis
    using existing_summary_returned_unchanged[OF ex_auth h2 h3 h4, of 6 7] ex_auth h2 h3 h4
    by blast
qed

text \<open>
  Claim C5. For an employee that exists and has no active rule, the call of an authorised
  user, with no summary stored for the period or with \<^verbatim>\<open>recalculate\<close> true, fails with the
  error of status 400 for the missing rules and leaves every table as it was.
\<close>

theorem no_active_rules_invalid_state:
  assumes "check_roles u [''admin'', ''Manager'', ''Head''] = Inr ()"
    and "find (\<lambda>x. user_id x = req_employee_id req) (users db) = Some employee"
    and "active_rules_query (req_employee_id req) (commission_rules db) = []"
    and "summary_query (req_employee_id req) (req_year req) (req_month req) (summaries db) = None
         \<or> recalculate req"
  shows "calculate_monthly_commission req u now db =
           (Inl (HTTPException 400 ''No commission rules found for this employee''), db)"
  using calculate_recompute[OF assms(1,2,4), of now] assms(3) by simp

theorem no_active_rules_invalid_state_witness:
  "check_roles ex_admin [''admin'', ''Manager'', ''Head''] = Inr ()
   \<and> find (\<lambda>x. user_id x = req_employee_id ex_request) (users norule_db)
       = Some \<lparr>user_id = 7, role = ''Agent''\<rparr>
   \<and> active_rules_query (req_employee_id ex_request) (commission_rules norule_db) = []
   \<and> (summary_query (req_employee_id ex_request) (req_year ex_request) (req_month ex_request)
         (summaries norule_db) = None \<or> recalculate ex_request)
   \<and> calculate_monthly_commission ex_request ex_admin 5 norule_db =
           (Inl (HTTPException 400 ''No commission rules found for this employee''), norule_db)"
proof -
  have h2: "find (\<lambda>x. user_id x = req_employee_id ex_request) (users norule_db)
       = Some \<lparr>user_id = 7, role = ''Agent''\<rparr>"
    by code_simp
  have h3: "active_rules_query (req_employee_id ex_request) (commission_rules norule_db) = []"
    by code_simp
  have h4: "summary_query (req_employee_id ex_request) (req_year ex_request)
       (req_month ex_request) (summaries norule_db) = None \<or> recalculate ex_request"
    by code_simp
  show ?thesis
    using no_active_rules_invalid_state[OF ex_auth h2 h3 h4, of 5] ex_auth h2 h3 h4
    by simp
qed

subsection \<open>A sale below every minimum\<close>




subsection \<open>Rules that differ in fields the handler does not read\<close>

lemma find_applicable_rule_map:
  assumes "\<And>r. rule_sale_type (w r) = rule_sale_type r"
    and "\<And>r. min_sale_amount (w r) = min_sale_amount r"
  shows "find_applicable_rule (map w rules) sale = map_option w (find_applicable_rule rules sale)"
  by (induction rules) (simp_all add: assms)

lemma sales_loop_map:
  assumes "\<And>r. rule_sale_type (w r) = rule_sale_type r"
    and "\<And>r. min_sale_amount (w r) = min_sale_amount r"
    and "\<And>r. base_commission_rate (w r) = base_commission_rate r"
  shows "sales_loop (map w rules) xs b bd = sales_loop rules xs b bd"
  by (induction xs arbitrary: b bd)
     (simp_all add: find_applicable_rule_map[of w, OF assms(1,2)] assms(3) Let_def
        split: option.splits)

lemma active_rules_query_map:
  assumes "\<And>r. rule_employee_id (w r) = rule_employee_id r"
    and "\<And>r. is_active (w r) = is_active r"
  shows "active_rules_query e (map w table) = map w (active_rules_query e table)"
  by (simp add: active_rules_query_def filter_map comp_def assms)

lemma tier_loop_map:
  assumes "\<And>r t. rule_tier_bonus t (w r) = rule_tier_bonus t r"
  shows "tier_loop (map w rules) t b = tier_loop rules t b"
  by (simp add: tier_loop_sum comp_def assms)

lemma compute_and_store_map:
  assumes "\<And>r. rule_sale_type (w r) = rule_sale_type r"
    and "\<And>r. min_sale_amount (w r) = min_sale_amount r"
    and "\<And>r. base_commission_rate (w r) = base_commission_rate r"
    and "\<And>r t. rule_tier_bonus t (w r) = rule_tier_bonus t r"
  shows "compute_and_store req u now (db\<lparr>commission_rules := table'\<rparr>) existing (map w rules) cl al =
           (fst (compute_and_store req u now db existing rules cl al),
            (snd (compute_and_store req u now db existing rules cl al))\<lparr>commission_rules := table'\<rparr>)"
  by (cases existing)
     (simp_all add: compute_and_store_def Let_def split_beta
        sales_loop_map[of w, OF assms(1,2,3)] tier_loop_map[of w, OF assms(4)])

lemma calculate_rules_map:
  assumes "\<And>r. rule_employee_id (w r) = rule_employee_id r"
    and "\<And>r. is_active (w r) = is_active r"
    and "\<And>r. rule_sale_type (w r) = rule_sale_type r"
    and "\<And>r. min_sale_amount (w r) = min_sale_amount r"
    and "\<And>r. base_commission_rate (w r) = base_commission_rate r"
    and "\<And>r t. rule_tier_bonus t (w r) = rule_tier_bonus t r"
  shows "calculate_monthly_commission req u now
           (db\<lparr>commission_rules := map w (commission_rules db)\<rparr>) =
         (fst (calculate_monthly_commission req u now db),
          (snd (calculate_monthly_commission req u now db))
            \<lparr>commission_rules := map w (commission_rules db)\<rparr>)"
  by (simp add: calculate_monthly_commission_def Let_def split_beta
        active_rules_query_map[of w, OF assms(1,2)]
        compute_and_store_map[of w, OF assms(3,4,5,6)]
        split: sum.splits option.splits bool.splits prod.splits)

text \<open>
  Claim C9. The handler reads no effective window: giving every rule any other window
  (\<open>new_from rule\<close>, \<open>new_until rule\<close>) changes neither the outcome of a call nor the tables it
  leaves, the rules themselves apart. A rule whose window misses the period is counted and
  applied as a rule whose window covers it.
\<close>

theorem effective_window_ignored:
  "calculate_monthly_commission req u now
     (db\<lparr>commission_rules :=
           map (\<lambda>rule. with_window (new_from rule) (new_until rule) rule) (commission_rules db)\<rparr>) =
   (fst (calculate_monthly_commission req u now db),
    (snd (calculate_monthly_commission req u now db))
      \<lparr>commission_rules :=
          map (\<lambda>rule. with_window (new_from rule) (new_until rule) rule) (commission_rules db)\<rparr>)"
  by (rule calculate_rules_map) (simp_all add: with_window_def rule_tier_bonus_def)

theorem effective_window_ignored_witness:
  "effective_until ex_rule = Some (2020, 12, 31)
   \<and> calculate_monthly_commission ex_request ex_admin 5
       (ex_db\<lparr>commission_rules :=
                map (\<lambda>rule. with_window (2025, 1, 1) None rule) (commission_rules ex_db)\<rparr>) =
     (Inr ex_summary,
      ex_db_after\<lparr>commission_rules :=
                map (\<lambda>rule. with_window (2025, 1, 1) None rule) (commission_rules ex_db)\<rparr>)"
  using effective_window_ignored[where req = ex_request and u = ex_admin and now = 5
      and db = ex_db and new_from = "\<lambda>_. (2025, 1, 1)" and new_until = "\<lambda>_. None"]
    ex_run
  by (simp add: ex_rule_def)

lemma without_zero_tiers_bonus:
  "rule_tier_bonus t (without_zero_tiers r) = rule_tier_bonus t r"
  by (simp add: without_zero_tiers_def rule_tier_bonus_def tier_reached_def)

text \<open>
  Claim C10. A tier whose threshold is 0 is treated as a tier that is absent: replacing
  every zero threshold of every rule by a null one changes neither the outcome of a call nor
  the tables it leaves, the rules themselves apart; and a rule whose three thresholds are 0
  adds nothing to the bonus, whatever its rates and whatever the total.
\<close>

theorem zero_threshold_is_absent:
  "calculate_monthly_commission req u now
     (db\<lparr>commission_rules := map without_zero_tiers (commission_rules db)\<rparr>) =
   (fst (calculate_monthly_commission req u now db),
    (snd (calculate_monthly_commission req u now db))
      \<lparr>commission_rules := map without_zero_tiers (commission_rules db)\<rparr>)
   \<and> tier_loop (rule\<lparr>tier1_threshold := Some 0, tier2_threshold := Some 0,
                      tier3_threshold := Some 0\<rparr> # rest) total_sales bonus
       = tier_loop rest total_sales bonus"
proof
  show "calculate_monthly_commission req u now
     (db\<lparr>commission_rules := map without_zero_tiers (commission_rules db)\<rparr>) =
   (fst (calculate_monthly_commission req u now db),
    (snd (calculate_monthly_commission req u now db))
      \<lparr>commission_rules := map without_zero_tiers (commission_rules db)\<rparr>)"
    by (rule calculate_rules_map)
       (simp_all add: without_zero_tiers_bonus, simp_all add: without_zero_tiers_def)
  show "tier_loop (rule\<lparr>tier1_threshold := Some 0, tier2_threshold := Some 0,
                      tier3_threshold := Some 0\<rparr> # rest) total_sales bonus
       = tier_loop rest total_sales bonus"
    by (simp add: tier_reached_def)
qed

theorem zero_threshold_is_absent_witness:
  "tier1_threshold zt_rule = Some 0 \<and> tier1_bonus_rate zt_rule = 2
   \<and> calculate_monthly_commission ex_request ex_admin 5
       (zt_db\<lparr>commission_rules := map without_zero_tiers (commission_rules zt_db)\<rparr>) =
     (fst (calculate_monthly_commission ex_request ex_admin 5 zt_db),
      (snd (calculate_monthly_commission ex_request ex_admin 5 zt_db))
        \<lparr>commission_rules := map without_zero_tiers (commission_rules zt_db)\<rparr>)
   \<and> tier_loop [ex_rule\<lparr>tier1_threshold := Some 0, tier2_threshold := Some 0,
                         tier3_threshold := Some 0\<rparr>] 25000 0 = 0"
  using zero_threshold_is_absent[where req = ex_request and u = ex_admin and now = 5
      and db = zt_db and rule = ex_rule and rest = "[]" and total_sales = 25000 and bonus = 0]
  by (simp add: zt_rule_def ex_rule_def)

subsection \<open>The summary table after a call\<close>

lemma fold_max_ge: "(a::int) \<le> fold max xs a"
proof (induction xs arbitrary: a)
  case Nil
  then show ?case by simp
next
  case (Cons x xs)
  have "a \<le> max x a" by simp
  also have "\<dots> \<le> fold max xs (max x a)" by (rule Cons.IH)
  finally show ?case by simp
qed

lemma fold_max_member: "x \<in> set xs \<Longrightarrow> (x::int) \<le> fold max xs a"
proof (induction xs arbitrary: a)
  case Nil
  then show ?case by simp
next
  case (Cons y ys)
  show ?case
  proof (cases "x = y")
    case True
    have "x \<le> max y a" using True by simp
    also have "\<dots> \<le> fold max ys (max y a)" by (rule fold_max_ge)
    finally show ?thesis by simp
  next
    case False
    then have "x \<in> set ys" using Cons.prems by simp
    then show ?thesis using Cons.IH by simp
  qed
qed

lemma next_summary_id_fresh: "s \<in> set table \<Longrightarrow> summary_id s < next_summary_id table"
  using fold_max_member[of "summary_id s" "map summary_id table" 0]
  by (simp add: next_summary_id_def)

lemma summary_query_Some:
  "summary_query e y m table = Some s \<Longrightarrow> s \<in> set table \<and> summary_key s = (e, y, m)"
  by (auto simp: summary_query_def summary_key_def find_Some_iff)

lemma summary_query_None:
  "summary_query e y m table = None \<Longrightarrow> (e, y, m) \<notin> summary_key ` set table"
  by (auto simp: summary_query_def summary_key_def find_None_iff)

lemma compute_summaries_new:
  assumes "compute_and_store req u now db None rules cl al = (sm, db')"
  shows "summaries db' = summaries db @ [sm]"
    and "summary_id sm = next_summary_id (summaries db)"
    and "summary_key sm = (req_employee_id req, req_year req, req_month req)"
  using assms by (auto simp: compute_and_store_def Let_def split_beta summary_key_def)

lemma compute_summaries_update:
  assumes "compute_and_store req u now db (Some e) rules cl al = (sm, db')"
  shows "summaries db' = flush_summary sm (summaries db)"
    and "summary_id sm = summary_id e"
    and "summary_key sm = summary_key e"
  using assms by (auto simp: compute_and_store_def Let_def split_beta summary_key_def)

lemma flush_summary_in_place:
  assumes "distinct (map summary_id table)" "e \<in> set table" "summary_id sm = summary_id e"
  shows "flush_summary sm table = map (\<lambda>row. if row = e then sm else row) table"
  unfolding flush_summary_def
proof (rule map_cong[OF refl])
  fix row assume "row \<in> set table"
  then have "summary_id row = summary_id e \<longleftrightarrow> row = e"
    using assms(1,2) by (auto simp: distinct_map dest: inj_onD)
  then show "(if summary_id row = summary_id sm then sm else row) =
             (if row = e then sm else row)"
    using assms(3) by simp
qed

lemma calculate_Inl:
  "calculate_monthly_commission req u now db = (Inl e, db') \<Longrightarrow> db' = db"
  by (auto simp: calculate_monthly_commission_def Let_def split_beta
           split: sum.splits option.splits bool.splits if_splits)

lemma calculate_Inr_early:
  assumes "calculate_monthly_commission req u now db = (Inr sm, db')"
    and "summary_query (req_employee_id req) (req_year req) (req_month req) (summaries db)
           = Some e"
    and "\<not> recalculate req"
  shows "sm = e \<and> db' = db"
  using assms
  by (auto simp: calculate_monthly_commission_def Let_def split_beta
           split: sum.splits option.splits bool.splits if_splits)

text \<open>What one call does to the summary table.\<close>

lemma calculate_summaries:
  assumes "distinct (map summary_id (summaries db))"
  shows "case calculate_monthly_commission req u now db of
           (Inl e, db') \<Rightarrow> summaries db' = summaries db
         | (Inr sm, db') \<Rightarrow>
             (case summary_query (req_employee_id req) (req_year req) (req_month req)
                     (summaries db) of
                None \<Rightarrow>
                  summaries db' = summaries db @ [sm]
                  \<and> summary_id sm = next_summary_id (summaries db)
                  \<and> summary_key sm = (req_employee_id req, req_year req, req_month req)
              | Some existing \<Rightarrow>
                  if recalculate req
                  then summaries db' =
                         map (\<lambda>row. if row = existing then sm else row) (summaries db)
                       \<and> summary_id sm = summary_id existing
                       \<and> summary_key sm = summary_key existing
                  else sm = existing \<and> summaries db' = summaries db)"
proof (cases "calculate_monthly_commission req u now db")
  case (Pair res db')
  show ?thesis
  proof (cases res)
    case (Inl e)
    then show ?thesis using Pair calculate_Inl[of req u now db e db'] by simp
  next
    case (Inr sm)
    note run = Pair[unfolded Inr]
    show ?thesis
    proof (cases "summary_query (req_employee_id req) (req_year req) (req_month req)
                    (summaries db)")
      case None
      from calculate_Inr_recompute[OF run] None obtain start_date end_date where
        "compute_and_store req u now db None
              (active_rules_query (req_employee_id req) (commission_rules db))
              (closed_sales_query (req_employee_id req) start_date end_date (sales db))
              (active_leads_query (req_employee_id req) (sales db)) = (sm, db')"
        by auto
      from compute_summaries_new[OF this] show ?thesis using run None by simp
    next
      case (Some existing)
      show ?thesis
      proof (cases "recalculate req")
        case True
        from calculate_Inr_recompute[OF run] Some True obtain start_date end_date where
          cs: "compute_and_store req u now db (Some existing)
              (active_rules_query (req_employee_id req) (commission_rules db))
              (closed_sales_query (req_employee_id req) start_date end_date (sales db))
              (active_leads_query (req_employee_id req) (sales db)) = (sm, db')"
          by auto
        have mem: "existing \<in> set (summaries db)"
          using summary_query_Some[OF Some] by simp
        show ?thesis
          using compute_summaries_update[OF cs]
            flush_summary_in_place[OF assms mem compute_summaries_update(2)[OF cs]]
            run Some True
          by simp
      next
        case False
        then show ?thesis using calculate_Inr_early[OF run Some False] run Some by simp
      qed
    qed
  qed
qed

lemma calculate_table_ok:
  assumes "summary_table_ok db"
  shows "summary_table_ok (snd (calculate_monthly_commission req u now db))"
proof -
  have ids: "distinct (map summary_id (summaries db))"
    and keys: "distinct (map summary_key (summaries db))"
    using assms by (simp_all add: summary_table_ok_def)
  obtain res db' where run: "calculate_monthly_commission req u now db = (res, db')"
    by (cases "calculate_monthly_commission req u now db")
  note step = calculate_summaries[OF ids, of req u now, unfolded run]
  have "summary_table_ok db'"
  proof (cases res)
    case (Inl e)
    then show ?thesis using step assms by (simp add: summary_table_ok_def)
  next
    case (Inr sm)
    show ?thesis
    proof (cases "summary_query (req_employee_id req) (req_year req) (req_month req)
                    (summaries db)")
      case None
      have new: "summaries db' = summaries db @ [sm]"
        "summary_id sm = next_summary_id (summaries db)"
        "summary_key sm = (req_employee_id req, req_year req, req_month req)"
        using step Inr None by simp_all
      have "summary_id sm \<notin> summary_id ` set (summaries db)"
        using next_summary_id_fresh[of _ "summaries db"] new(2) by force
      moreover have "summary_key sm \<notin> summary_key ` set (summaries db)"
        using summary_query_None[OF None] new(3) by simp
      ultimately show ?thesis using ids keys new(1) by (simp add: summary_table_ok_def)
    next
      case (Some existing)
      show ?thesis
      proof (cases "recalculate req")
        case True
        have upd: "summaries db' =
                     map (\<lambda>row. if row = existing then sm else row) (summaries db)"
          "summary_id sm = summary_id existing" "summary_key sm = summary_key existing"
          using step Inr Some True by simp_all
        have "map summary_id (summaries db') = map summary_id (summaries db)"
          unfolding upd(1) using upd(2) by (simp add: comp_def cong: map_cong)
        moreover have "map summary_key (summaries db') = map summary_key (summaries db)"
          unfolding upd(1) using upd(3) by (simp add: comp_def cong: map_cong)
        ultimately show ?thesis using ids keys by (simp add: summary_table_ok_def)
      next
        case False
        then show ?thesis using step Inr Some assms by (simp add: summary_table_ok_def)
      qed
    qed
  qed
  then show ?thesis using run by simp
qed

lemma run_requests_table_ok:
  "summary_table_ok db \<Longrightarrow> summary_table_ok (run_requests calls db)"
proof (induction calls arbitrary: db)
  case Nil
  then show ?case by (simp add: run_requests_def)
next
  case (Cons call calls)
  obtain req u now where call: "call = (req, u, now)" by (cases call)
  have "summary_table_ok (snd (calculate_monthly_commission req u now db))"
    by (rule calculate_table_ok[OF Cons.prems])
  from Cons.IH[OF this] show ?case by (simp add: run_requests_def call)
qed

lemma distinct_key_at_most_one:
  "distinct (map f xs) \<Longrightarrow> length (filter (\<lambda>x. f x = k) xs) \<le> 1"
proof (induction xs)
  case Nil
  then show ?case by simp
next
  case (Cons x xs)
  show ?case
  proof (cases "f x = k")
    case True
    then have "filter (\<lambda>x. f x = k) xs = []"
      using Cons.prems by (auto simp: filter_empty_conv image_iff)
    then show ?thesis using True by simp
  next
    case False
    then show ?thesis using Cons by simp
  qed
qed

text \<open>
  Claim C4. A summary table with unique ids and at most one row for each (employee, year,
  month) keeps both properties through any sequence of calls, so it never holds two rows
  for one period. A single call leaves the table as it was when it fails or returns the
  stored summary; when it computes and a row for the period exists, that row and no other
  is replaced by the returned summary, which keeps the row's id and period; when no row
  exists, the returned summary is appended as a new row for the period.
\<close>

theorem summary_upsert_unique:
  assumes "summary_table_ok db"
  shows "summary_table_ok (run_requests calls db)
       \<and> (\<forall>key. length (filter (\<lambda>s. summary_key s = key)
                     (summaries (run_requests calls db))) \<le> 1)
       \<and> (case calculate_monthly_commission req u now db of
             (Inl e, db') \<Rightarrow> summaries db' = summaries db
           | (Inr sm, db') \<Rightarrow>
               (case summary_query (req_employee_id req) (req_year req) (req_month req)
                       (summaries db) of
                  None \<Rightarrow>
                    summaries db' = summaries db @ [sm]
                    \<and> summary_id sm = next_summary_id (summaries db)
                    \<and> summary_key sm = (req_employee_id req, req_year req, req_month req)
                | Some existing \<Rightarrow>
                    if recalculate req
                    then summaries db' =
                           map (\<lambda>row. if row = existing then sm else row) (summaries db)
                         \<and> summary_id sm = summary_id existing
                         \<and> summary_key sm = summary_key existing
                    else sm = existing \<and> summaries db' = summaries db))"
proof (intro conjI allI)
  show ok: "summary_table_ok (run_requests calls db)"
    by (rule run_requests_table_ok[OF assms])
  show "length (filter (\<lambda>s. summary_key s = key) (summaries (run_requests calls db))) \<le> 1"
    for key
    using ok distinct_key_at_most_one[of summary_key "summaries (run_requests calls db)" key]
    by (simp add: summary_table_ok_def)
  show "case calculate_monthly_commission req u now db of
             (Inl e, db') \<Rightarrow> summaries db' = summaries db
           | (Inr sm, db') \<Rightarrow>
               (case summary_query (req_employee_id req) (req_year req) (req_month req)
                       (summaries db) of
                  None \<Rightarrow>
                    summaries db' = summaries db @ [sm]
                    \<and> summary_id sm = next_summary_id (summaries db)
                    \<and> summary_key sm = (req_employee_id req, req_year req, req_month req)
                | Some existing \<Rightarrow>
                    if recalculate req
                    then summaries db' =
                           map (\<lambda>row. if row = existing then sm else row) (summaries db)
                         \<and> summary_id sm = summary_id existing
                         \<and> summary_key sm = summary_key existing
                    else sm = existing \<and> summaries db' = summaries db)"
    using assms by (intro calculate_summaries) (simp add: summary_table_ok_def)
qed

theorem summary_upsert_unique_witness:
  "summary_table_ok ex_db
   \<and> summary_table_ok (run_requests ex_calls ex_db)
   \<and> (\<forall>key. length (filter (\<lambda>s. summary_key s = key)
                 (summaries (run_requests ex_calls ex_db))) \<le> 1)
   \<and> summaries (run_requests ex_calls ex_db) = [ex_summary\<lparr>last_updated := 6\<rparr>]"
proof -
  have h: "summary_table_ok ex_db"
    by code_simp
  have rows: "summaries (run_requests ex_calls ex_db) = [ex_summary\<lparr>last_updated := 6\<rparr>]"
    by code_simp
  show ?thesis
    using summary_upsert_unique[OF h, where calls = ex_calls] h rows by blast
qed

subsection \<open>The breakdown\<close>






subsection \<open>A second calculation on the tables the first one left\<close>

lemma sale_after_fields [simp]:
  "sale_type (claimed_sale_after rules s) = sale_type s"
  "sale_amount (claimed_sale_after rules s) = sale_amount s"
  "salesperson_id (claimed_sale_after rules s) = salesperson_id s"
  "status (claimed_sale_after rules s) = status s"
  "close_date (claimed_sale_after rules s) = close_date s"
  by (simp_all add: claimed_sale_after_def split: option.splits)

lemma rule_matches_after [simp]:
  "claimed_rule_matches (claimed_sale_after rules s) = claimed_rule_matches s"
  by (rule ext) (simp add: claimed_rule_matches_def)

lemma claimed_commission_after [simp]:
  "claimed_commission rules (claimed_sale_after rules s) = claimed_commission rules s"
  by (simp add: claimed_commission_def split: option.splits)

lemma sale_after_idem [simp]:
  "claimed_sale_after rules (claimed_sale_after rules s) = claimed_sale_after rules s"
  by (cases "find (claimed_rule_matches s) rules")
     (simp_all add: claimed_sale_after_def[of rules "claimed_sale_after rules s"],
      simp add: claimed_sale_after_def)

lemma track_breakdown_after [simp]:
  "track_breakdown bd (claimed_sale_after rules s) c = track_breakdown bd s c"
  by (simp add: track_breakdown_def)













subsection \<open>The date range\<close>

lemma days_in_month_pos: "1 \<le> days_in_month y m"
  by (simp add: days_in_month_def)

lemma month_range_Inr:
  assumes "month_range y m = Inr (start_date, end_date)"
  shows "1 \<le> m \<and> m \<le> 12 \<and> 1 \<le> y \<and> y \<le> 9999
       \<and> start_date = (y, m, 1) \<and> end_date = (y, m, days_in_month y m)
       \<and> date_le start_date end_date"
proof (cases "m = 12")
  case True
  then show ?thesis
    using assms
    by (auto simp: month_range_def py_date_def days_in_month_def split: if_splits)
next
  case False
  then show ?thesis
    using assms days_in_month_pos[of y m]
    by (auto simp: month_range_def py_date_def split: if_splits)
qed

lemma month_range_outside: "m < 1 \<or> 12 < m \<Longrightarrow> month_range y m = Inl ValueError"
  by (auto simp: month_range_def py_date_def)

text \<open>
  Claim C6 fails as stated. A request for month 13 passes the request schema, the employee
  check and the query for the rules. With an active rule, \<^verbatim>\<open>date(year, 13, 1)\<close> raises a
  \<^verbatim>\<open>ValueError\<close> that the handler does not catch; with no active rule the answer is the
  error of status 400 for the missing rules, so the rules were queried before the month was
  looked at.
\<close>

theorem month_13_counterexample:
  "calculate_monthly_commission (ex_request\<lparr>req_month := 13\<rparr>) ex_admin 5 ex_db =
     (Inl ValueError, ex_db)
   \<and> calculate_monthly_commission (ex_request\<lparr>req_month := 13\<rparr>) ex_admin 5 norule_db =
     (Inl (HTTPException 400 ''No commission rules found for this employee''), norule_db)"
  by code_simp

text \<open>
  Claim C6, amended. The handler has no bound check of its own. A request whose month is
  outside 1-12 and that reaches the computation (authorised caller, existing employee, no
  summary stored for the period or \<^verbatim>\<open>recalculate\<close> true) fails after the queries for the
  employee, the summary and the rules, and leaves every table as it was: with the error of
  status 400 when the employee has no active rule, and otherwise where the first day of the
  month is constructed. Whenever the date-range computation returns, the month is in 1-12,
  the year in 1-9999, and the range runs from the first to the last day of that month.
\<close>

theorem month_outside_calendar_not_computed:
  assumes "check_roles u [''admin'', ''Manager'', ''Head''] = Inr ()"
    and "find (\<lambda>x. user_id x = req_employee_id req) (users db) = Some employee"
    and "summary_query (req_employee_id req) (req_year req) (req_month req) (summaries db) = None
         \<or> recalculate req"
    and "req_month req < 1 \<or> 12 < req_month req"
  shows "calculate_monthly_commission req u now db =
           (if active_rules_query (req_employee_id req) (commission_rules db) = []
            then Inl (HTTPException 400 ''No commission rules found for this employee'')
            else Inl ValueError, db)
       \<and> (month_range y m = Inr (start_date, end_date) \<longrightarrow>
            1 \<le> m \<and> m \<le> 12 \<and> 1 \<le> y \<and> y \<le> 9999
            \<and> start_date = (y, m, 1) \<and> end_date = (y, m, days_in_month y m)
            \<and> date_le start_date end_date)"
proof
  show "calculate_monthly_commission req u now db =
           (if active_rules_query (req_employee_id req) (commission_rules db) = []
            then Inl (HTTPException 400 ''No commission rules found for this employee'')
            else Inl ValueError, db)"
    using calculate_recompute[OF assms(1,2,3), of now]
      month_range_outside[OF assms(4), of "req_year req"]
    by simp
  show "month_range y m = Inr (start_date, end_date) \<longrightarrow>
            1 \<le> m \<and> m \<le> 12 \<and> 1 \<le> y \<and> y \<le> 9999
            \<and> start_date = (y, m, 1) \<and> end_date = (y, m, days_in_month y m)
            \<and> date_le start_date end_date"
    using month_range_Inr[of y m start_date end_date] by blast
qed

theorem month_outside_calendar_not_computed_witness:
  "check_roles ex_admin [''admin'', ''Manager'', ''Head''] = Inr ()
   \<and> find (\<lambda>x. user_id x = req_employee_id (ex_request\<lparr>req_month := 0\<rparr>)) (users ex_db)
       = Some \<lparr>user_id = 7, role = ''Agent''\<rparr>
   \<and> (summary_query (req_employee_id (ex_request\<lparr>req_month := 0\<rparr>))
         (req_year (ex_request\<lparr>req_month := 0\<rparr>)) (req_month (ex_request\<lparr>req_month := 0\<rparr>))
         (summaries ex_db) = None \<or> recalculate (ex_request\<lparr>req_month := 0\<rparr>))
   \<and> (req_month (ex_request\<lparr>req_month := 0\<rparr>) < 1 \<or> 12 < req_month (ex_request\<lparr>req_month := 0\<rparr>))
   \<and> calculate_monthly_commission (ex_request\<lparr>req_month := 0\<rparr>) ex_admin 5 ex_db =
       (Inl ValueError, ex_db)
   \<and> month_range 2024 2 = Inr ((2024, 2, 1), (2024, 2, 29))
   \<and> date_le (2024, 2, 1) (2024, 2, 29)"
proof -
  have h2: "find (\<lambda>x. user_id x = req_employee_id (ex_request\<lparr>req_month := 0\<rparr>)) (users ex_db)
       = Some \<lparr>user_id = 7, role = ''Agent''\<rparr>"
    by code_simp
  have h3: "summary_query (req_employee_id (ex_request\<lparr>req_month := 0\<rparr>))
         (req_year (ex_request\<lparr>req_month := 0\<rparr>)) (req_month (ex_request\<lparr>req_month := 0\<rparr>))
         (summaries ex_db) = None \<or> recalculate (ex_request\<lparr>req_month := 0\<rparr>)"
    by code_simp
  have h4: "req_month (ex_request\<lparr>req_month := 0\<rparr>) < 1
            \<or> 12 < req_month (ex_request\<lparr>req_month := 0\<rparr>)"
    by simp
  have rules: "active_rules_query (req_employee_id (ex_request\<lparr>req_month := 0\<rparr>))
                 (commission_rules ex_db) \<noteq> []"
    by code_simp
  have feb: "month_range 2024 2 = Inr ((2024, 2, 1), (2024, 2, 29))"
    by code_simp
  note inst = month_outside_calendar_not_computed[OF ex_auth h2 h3 h4,
      where now = 5 and y = 2024 and m = 2 and start_date = "(2024, 2, 1)"
        and end_date = "(2024, 2, 29)"]
  have run: "calculate_monthly_commission (ex_request\<lparr>req_month := 0\<rparr>) ex_admin 5 ex_db =
       (Inl ValueError, ex_db)"
    using inst rules by simp
  have le: "date_le (2024, 2, 1) (2024, 2, 29)"
    using inst feb by blast
  show ?thesis
    using ex_auth h2 h3 h4 run feb le by blast
qed

subsection \<open>A call that computes returns a summary\<close>

lemma month_range_valid:
  assumes "1 \<le> m" "m \<le> 12" "1 \<le> y" "y \<le> 9998"
  shows "month_range y m = Inr ((y, m, 1), (y, m, days_in_month y m))"
  using assms days_in_month_pos[of y m]
  by (auto simp: month_range_def py_date_def days_in_month_def)

lemma calculate_succeeds:
  assumes "check_roles u [''admin'', ''Manager'', ''Head''] = Inr ()"
    and "find (\<lambda>x. user_id x = req_employee_id req) (users db) = Some employee"
    and "summary_query (req_employee_id req) (req_year req) (req_month req) (summaries db) = None
         \<or> recalculate req"
    and "active_rules_query (req_employee_id req) (commission_rules db) \<noteq> []"
    and "1 \<le> req_month req" "req_month req \<le> 12" "1 \<le> req_year req" "req_year req \<le> 9998"
  shows "\<exists>sm db'. calculate_monthly_commission req u now db = (Inr sm, db')"
  using calculate_recompute[OF assms(1,2,3), of now] assms(4) month_range_valid[OF assms(5-8)]
  by simp

end
